theory Spec2Isabelle
  imports Complex_Main "HOL-Library.Word"
begin

section \<open>Geometry interpolator (utils.py)\<close>

text \<open>
  The two functions of \<^verbatim>\<open>utils.py\<close> are duck-typed over numpy arrays. They are embedded
  at the element types of their only call site, the rasterisation loop of
  \<^verbatim>\<open>Converter.convert\<close>: the triangle corners are integer arrays (the result of
  \<^verbatim>\<open>astype(int)\<close>), the tested point is a float array, and the three colours are rows of
  trimesh's \<^verbatim>\<open>vertex_colors\<close>, an \<^verbatim>\<open>(n, 4)\<close> array of unsigned bytes.
  Coordinates and every float64 intermediate are idealised as \<^typ>\<open>real\<close> (integers embed
  into the reals); byte colours are \<^typ>\<open>8 word\<close>, whose addition wraps as numpy's does.
\<close>

type_synonym vec2 = "real \<times> real"

type_synonym u8 = "8 word"

datatype 'a rgba = RGBA 'a 'a 'a 'a

fun zip_rgba :: "('a \<Rightarrow> 'b \<Rightarrow> 'c) \<Rightarrow> 'a rgba \<Rightarrow> 'b rgba \<Rightarrow> 'c rgba" where
  "zip_rgba f (RGBA r0 g0 b0 a0) (RGBA r1 g1 b1 a1) = RGBA (f r0 r1) (f g0 g1) (f b0 b1) (f a0 a1)"

fun alpha :: "'a rgba \<Rightarrow> 'a" where
  "alpha (RGBA r g b a) = a"

definition vsub :: "vec2 \<Rightarrow> vec2 \<Rightarrow> vec2" where
  "vsub a b = (fst a - fst b, snd a - snd b)"

definition dot :: "vec2 \<Rightarrow> vec2 \<Rightarrow> real" where
  "dot a b = fst a * fst b + snd a * snd b"

text \<open>\<^verbatim>\<open>np.clip(x, lo, hi)\<close> is \<^verbatim>\<open>minimum(maximum(x, lo), hi)\<close>.\<close>

definition clip :: "real \<Rightarrow> real \<Rightarrow> real \<Rightarrow> real" where
  "clip x lo hi = min (max x lo) hi"

text \<open>A float scalar times a byte array: numpy promotes the bytes to float64 first.\<close>

definition float_of_u8 :: "u8 \<Rightarrow> real" where
  "float_of_u8 x = real (unat x)"

definition scale :: "real \<Rightarrow> u8 rgba \<Rightarrow> real rgba" where
  "scale k c = map_rgba (\<lambda>x. k * float_of_u8 x) c"

text \<open>
  \<^verbatim>\<open>
  def barycentric_interpolate(v0, v1, v2, c0, c1, c2, p):
      v0v1 = v1 - v0
      v0v2 = v2 - v0
      v0p = p - v0
      d00 = np.dot(v0v1, v0v1)
      d01 = np.dot(v0v1, v0v2)
      d11 = np.dot(v0v2, v0v2)
      d20 = np.dot(v0p, v0v1)
      d21 = np.dot(v0p, v0v2)
      denom = d00 * d11 - d01 * d01
      if abs(denom) < 1e-8:
          return (c0 + c1 + c2) / 3
      v = (d11 * d20 - d01 * d21) / denom
      w = (d00 * d21 - d01 * d20) / denom
      u = 1.0 - v - w
      u = np.clip(u, 0, 1)
      v = np.clip(v, 0, 1)
      w = np.clip(w, 0, 1)
      interpolate_color = u * c0 + v * c1 + w * c2
      return np.clip(interpolate_color, 0, 255)
  \<close>
  In the degenerate branch \<^verbatim>\<open>c0 + c1 + c2\<close> is a sum of byte arrays, computed in bytes
  (modulo 256) before the true division turns it into floats. In the other branch every
  colour is multiplied by a float first, so the sum is a float sum.
\<close>

definition denom_of :: "vec2 \<Rightarrow> vec2 \<Rightarrow> vec2 \<Rightarrow> real" where
  "denom_of v0 v1 v2 =
     (let v0v1 = vsub v1 v0; v0v2 = vsub v2 v0;
          d00 = dot v0v1 v0v1; d01 = dot v0v1 v0v2; d11 = dot v0v2 v0v2
      in d00 * d11 - d01 * d01)"

definition barycentric_interpolate ::
  "vec2 \<Rightarrow> vec2 \<Rightarrow> vec2 \<Rightarrow> u8 rgba \<Rightarrow> u8 rgba \<Rightarrow> u8 rgba \<Rightarrow> vec2 \<Rightarrow> real rgba" where
  "barycentric_interpolate v0 v1 v2 c0 c1 c2 p =
     (let v0v1 = vsub v1 v0;
          v0v2 = vsub v2 v0;
          v0p = vsub p v0;
          d00 = dot v0v1 v0v1;
          d01 = dot v0v1 v0v2;
          d11 = dot v0v2 v0v2;
          d20 = dot v0p v0v1;
          d21 = dot v0p v0v2;
          denom = d00 * d11 - d01 * d01
      in if \<bar>denom\<bar> < 1 / 10 ^ 8
         then map_rgba (\<lambda>s. float_of_u8 s / 3) (zip_rgba (+) (zip_rgba (+) c0 c1) c2)
         else
           let v = (d11 * d20 - d01 * d21) / denom;
               w = (d00 * d21 - d01 * d20) / denom;
               u = 1 - v - w;
               u' = clip u 0 1;
               v' = clip v 0 1;
               w' = clip w 0 1;
               interpolate_color =
                 zip_rgba (+) (zip_rgba (+) (scale u' c0) (scale v' c1)) (scale w' c2)
           in map_rgba (\<lambda>x. clip x 0 255) interpolate_color)"

text \<open>
  \<^verbatim>\<open>
  def is_point_in_triangle(p, v0, v1, v2):
      def sign(p1, p2, p3):
          return (p1[0] - p3[0]) * (p2[1] - p3[1]) - (p2[0] - p3[0]) * (p1[1] - p3[1])
      d1 = sign(p, v0, v1)
      d2 = sign(p, v1, v2)
      d3 = sign(p, v2, v0)
      has_neg = (d1 < 0) or (d2 < 0) or (d3 < 0)
      has_pos = (d1 > 0) or (d2 > 0) or (d3 > 0)
      return not (has_neg and has_pos)
  \<close>
\<close>

definition sign :: "vec2 \<Rightarrow> vec2 \<Rightarrow> vec2 \<Rightarrow> real" where
  "sign p1 p2 p3 = (fst p1 - fst p3) * (snd p2 - snd p3) - (fst p2 - fst p3) * (snd p1 - snd p3)"

definition is_point_in_triangle :: "vec2 \<Rightarrow> vec2 \<Rightarrow> vec2 \<Rightarrow> vec2 \<Rightarrow> bool" where
  "is_point_in_triangle p v0 v1 v2 =
     (let d1 = sign p v0 v1;
          d2 = sign p v1 v2;
          d3 = sign p v2 v0;
          has_neg = (d1 < 0 \<or> d2 < 0 \<or> d3 < 0);
          has_pos = (d1 > 0 \<or> d2 > 0 \<or> d3 > 0)
      in \<not> (has_neg \<and> has_pos))"


subsection \<open>Auxiliary notions used to state the properties\<close>

text \<open>The point at parameter \<open>t\<close> on the segment from \<open>a\<close> to \<open>b\<close>.\<close>

definition lerp :: "vec2 \<Rightarrow> vec2 \<Rightarrow> real \<Rightarrow> vec2" where
  "lerp a b t = (fst a + t * (fst b - fst a), snd a + t * (snd b - snd a))"

text \<open>Twice the signed area of the triangle.\<close>

definition area2 :: "vec2 \<Rightarrow> vec2 \<Rightarrow> vec2 \<Rightarrow> real" where
  "area2 v0 v1 v2 = (fst v1 - fst v0) * (snd v2 - snd v0) - (fst v2 - fst v0) * (snd v1 - snd v0)"

definition centroid :: "vec2 \<Rightarrow> vec2 \<Rightarrow> vec2 \<Rightarrow> vec2" where
  "centroid v0 v1 v2 = ((fst v0 + fst v1 + fst v2) / 3, (snd v0 + snd v1 + snd v2) / 3)"

text \<open>A byte colour read as floats, channel by channel.\<close>

definition to_float :: "u8 rgba \<Rightarrow> real rgba" where
  "to_float c = map_rgba float_of_u8 c"

text \<open>
  The interpolation as the specification words it: the barycentric weights of \<open>p\<close> by the
  dot-product formulation, and the weighted sum of three byte colours taken in floats.
\<close>

definition bary_weights :: "vec2 \<Rightarrow> vec2 \<Rightarrow> vec2 \<Rightarrow> vec2 \<Rightarrow> real \<times> real \<times> real" where
  "bary_weights v0 v1 v2 p =
     (let a = vsub v1 v0; b = vsub v2 v0; q = vsub p v0;
          d = dot a a * dot b b - dot a b * dot a b;
          v = (dot b b * dot q a - dot a b * dot q b) / d;
          w = (dot a a * dot q b - dot a b * dot q a) / d
      in (1 - v - w, v, w))"

definition weighted_sum ::
  "real \<Rightarrow> real \<Rightarrow> real \<Rightarrow> u8 rgba \<Rightarrow> u8 rgba \<Rightarrow> u8 rgba \<Rightarrow> real rgba" where
  "weighted_sum u v w c0 c1 c2 =
     zip_rgba (+) (zip_rgba (+) (scale u c0) (scale v c1)) (scale w c2)"

text \<open>The unweighted average of three byte colours, taken in floats.\<close>

definition average3 :: "u8 rgba \<Rightarrow> u8 rgba \<Rightarrow> u8 rgba \<Rightarrow> real rgba" where
  "average3 c0 c1 c2 =
     map_rgba (\<lambda>s. s / 3) (zip_rgba (+) (zip_rgba (+) (to_float c0) (to_float c1)) (to_float c2))"

section \<open>The converter (converter.py)\<close>

text \<open>
  Exceptions are values: a function that can raise returns \<open>exn + 'a\<close>, with \<open>Inl\<close> the
  exception. The warnings issued, the files exported and the lines printed are kept in an
  explicit record of the outside world that is threaded through the calls.
\<close>

datatype exn = TypeError | ValueError | IndexError

type_synonym image = "u8 rgba list list"

type_synonym bgr = "u8 \<times> u8 \<times> u8"

type_synonym vec3 = "real \<times> real \<times> real"

type_synonym face = "nat \<times> nat \<times> nat"

subsection \<open>The standard library as far as the converter uses it\<close>

text \<open>
  A \<^verbatim>\<open>pathlib.Path\<close> on a POSIX system: an anchor (empty or \<^verbatim>\<open>/\<close>) and the list of
  components, with empty and \<^verbatim>\<open>.\<close> components dropped when the string is parsed.
\<close>

record pure_path =
  anchor :: string
  parts :: "string list"

fun split_on :: "char \<Rightarrow> string \<Rightarrow> string list" where
  "split_on c [] = [[]]"
| "split_on c (x # xs) =
     (if x = c then [] # split_on c xs
      else (case split_on c xs of [] \<Rightarrow> [[x]] | w # ws \<Rightarrow> (x # w) # ws))"

definition Path :: "string \<Rightarrow> pure_path" where
  "Path s = \<lparr> anchor = (if s \<noteq> [] \<and> hd s = CHR ''/'' then ''/'' else ''''),
             parts = filter (\<lambda>p. p \<noteq> [] \<and> p \<noteq> ''.'') (split_on (CHR ''/'') s) \<rparr>"

definition path_name :: "pure_path \<Rightarrow> string" where
  "path_name p = (if parts p = [] then '''' else last (parts p))"

text \<open>
  \<^verbatim>\<open>
  name = self.name
  i = name.rfind('.')
  if 0 < i < len(name) - 1: return name[i:]
  else: return ''
  \<close>
\<close>

definition rfind_dot :: "string \<Rightarrow> int" where
  "rfind_dot name =
     int (length name) - int (length (takeWhile (\<lambda>c. c \<noteq> CHR ''.'') (rev name))) - 1"

definition suffix :: "pure_path \<Rightarrow> string" where
  "suffix p =
     (let name = path_name p; i = rfind_dot name
      in if 0 < i \<and> i < int (length name) - 1 then drop (nat i) name else '''')"

text \<open>
  \<^verbatim>\<open>with_suffix\<close> raises \<^verbatim>\<open>ValueError\<close> on a path with an empty name; otherwise it
  replaces the old suffix of the name, or appends the new one when there is none.
\<close>

definition with_suffix :: "pure_path \<Rightarrow> string \<Rightarrow> exn + pure_path" where
  "with_suffix p suf =
     (let name = path_name p in
      if name = [] then Inl ValueError
      else
        let old_suffix = suffix p;
            name' = (if old_suffix = [] then name @ suf
                     else take (length name - length old_suffix) name @ suf)
        in Inr (p\<lparr> parts := butlast (parts p) @ [name'] \<rparr>))"

fun intercalate :: "string \<Rightarrow> string list \<Rightarrow> string" where
  "intercalate sep [] = []"
| "intercalate sep [x] = x"
| "intercalate sep (x # y # ys) = x @ sep @ intercalate sep (y # ys)"

definition path_str :: "pure_path \<Rightarrow> string" where
  "path_str p =
     (if anchor p = [] \<and> parts p = [] then ''.'' else anchor p @ intercalate ''/'' (parts p))"

text \<open>\<^verbatim>\<open>str.lower\<close> on ASCII text.\<close>

definition lower_char :: "char \<Rightarrow> char" where
  "lower_char c =
     (case map_of (zip ''ABCDEFGHIJKLMNOPQRSTUVWXYZ'' ''abcdefghijklmnopqrstuvwxyz'') c of
        None \<Rightarrow> c
      | Some l \<Rightarrow> l)"

definition lower :: "string \<Rightarrow> string" where
  "lower s = map lower_char s"

record world =
  warnings :: "string list"
  stdout :: "string list"

text \<open>
  \<^verbatim>\<open>warnings.warn(message, category=None, ...)\<close>: the second positional argument is the
  warning category. When it is neither \<^verbatim>\<open>None\<close> nor a subclass of \<^verbatim>\<open>Warning\<close>, the
  call raises \<^verbatim>\<open>TypeError\<close> ("category must be a Warning subclass, not 'str'") and
  no warning is issued.
\<close>

datatype category = NoCategory | WarningSubclass string | StrObject string

definition warn :: "string \<Rightarrow> category \<Rightarrow> 'a world_scheme \<Rightarrow> exn + 'a world_scheme" where
  "warn message cat w =
     (case cat of
        StrObject s \<Rightarrow> Inl TypeError
      | _ \<Rightarrow> Inr (w\<lparr> warnings := warnings w @ [message] \<rparr>))"

subsection \<open>Output path validation\<close>

text \<open>
  \<^verbatim>\<open>
  def _validate_output_path(self, output_path: str | None) -> Path:
      default_output = Path("output.glb")
      if output_path is None:
          return default_output
      path = Path(output_path)
      if path.suffix.lower() != ".glb":
          new_path = path.with_suffix(".glb")
          warnings.warn(
              f"Output file extension changed from '{path.suffix}' to '.glb'",
              f"Saving as {new_path}",
          )
          return new_path
      return path
  \<close>
  The call of \<^verbatim>\<open>warnings.warn\<close> has two positional arguments, so the second f-string
  is passed as the category.
\<close>

definition validate_output_path ::
  "string option \<Rightarrow> 'a world_scheme \<Rightarrow> exn + (pure_path \<times> 'a world_scheme)" where
  "validate_output_path output_path w =
     (let default_output = Path ''output.glb'' in
      case output_path of
        None \<Rightarrow> Inr (default_output, w)
      | Some s \<Rightarrow>
          let path = Path s in
          if lower (suffix path) \<noteq> ''.glb'' then
            (case with_suffix path ''.glb'' of
               Inl e \<Rightarrow> Inl e
             | Inr new_path \<Rightarrow>
                 (case warn (''Output file extension changed from '' @ [CHR 0x27] @ suffix path
                               @ [CHR 0x27] @ '' to '' @ [CHR 0x27] @ ''.glb'' @ [CHR 0x27])
                            (StrObject (''Saving as '' @ path_str new_path)) w of
                    Inl e \<Rightarrow> Inl e
                  | Inr w' \<Rightarrow> Inr (new_path, w')))
          else Inr (path, w))"

subsection \<open>The converter object\<close>

text \<open>
  \<^verbatim>\<open>
  def __init__(self, texture_size=1024, upscale_factor=2, median_filter_size=3, blur_filter_radius=1):
      self.texture_size = texture_size
      self.upscaling = upscale_factor
      self.buffer_size = texture_size * upscale_factor
      self.median_size = median_filter_size
      self.blur_radius = blur_filter_radius
      self.texture_buffer = np.zeros((self.buffer_size, self.buffer_size, 4), dtype=np.uint8)
  \<close>
  The buffer is a list of rows of RGBA byte texels. \<^verbatim>\<open>np.zeros\<close> raises
  \<^verbatim>\<open>ValueError\<close> on a negative dimension. The attribute \<^verbatim>\<open>texture\<close> does not
  exist until \<^verbatim>\<open>convert\<close> sets it.
\<close>

record converter =
  texture_size :: int
  upscaling :: int
  buffer_size :: int
  median_size :: int
  blur_radius :: int
  texture_buffer :: image
  texture :: "image option"

definition zeros :: "nat \<Rightarrow> image" where
  "zeros n = replicate n (replicate n (RGBA 0 0 0 0))"

definition Converter_init :: "int \<Rightarrow> int \<Rightarrow> int \<Rightarrow> int \<Rightarrow> exn + converter" where
  "Converter_init ts upscale_factor median_filter_size blur_filter_radius =
     (let bs = ts * upscale_factor in
      if bs < 0 then Inl ValueError
      else Inr \<lparr> texture_size = ts, upscaling = upscale_factor, buffer_size = bs,
                 median_size = median_filter_size, blur_radius = blur_filter_radius,
                 texture_buffer = zeros (nat bs), texture = None \<rparr>)"

subsection \<open>Rasterisation of the faces\<close>

text \<open>
  \<^verbatim>\<open>
  for face in mesh.faces:
      uv0, uv1, uv2 = uvs[face]
      c0, c1, c2 = vertex_colors[face]
      uv0 = (uv0 * (self.buffer_size - 1)).astype(int)
      uv1 = (uv1 * (self.buffer_size - 1)).astype(int)
      uv2 = (uv2 * (self.buffer_size - 1)).astype(int)
      min_x = max(int(np.floor(min(uv0[0], uv1[0], uv2[0]))), 0)
      max_x = min(int(np.ceil(max(uv0[0], uv1[0], uv2[0]))), self.buffer_size - 1)
      min_y = max(int(np.floor(min(uv0[1], uv1[1], uv2[1]))), 0)
      max_y = min(int(np.ceil(max(uv0[1], uv1[1], uv2[1]))), self.buffer_size - 1)
      for y in range(min_y, max_y + 1):
          for x in range(min_x, max_x + 1):
              p = np.array([x + 0.5, y + 0.5])
              if is_point_in_triangle(p, uv0, uv1, uv2):
                  color = barycentric_interpolate(uv0, uv1, uv2, c0, c1, c2, p)
                  self.texture_buffer[y, x] = np.clip(color, 0, 255).astype(np.uint8)
  \<close>
  Indexing an array with the three indices of a face raises \<^verbatim>\<open>IndexError\<close> when one
  of them is out of range. \<^verbatim>\<open>astype(int)\<close> truncates towards zero; on the integer
  coordinates it produces, \<^verbatim>\<open>np.floor\<close> and \<^verbatim>\<open>np.ceil\<close> change nothing.
  \<^verbatim>\<open>astype(np.uint8)\<close> truncates a float that was clipped to \<open>[0, 255]\<close>.
\<close>

definition take3 :: "'a list \<Rightarrow> face \<Rightarrow> exn + ('a \<times> 'a \<times> 'a)" where
  "take3 xs f =
     (case f of (i, j, k) \<Rightarrow>
        if i < length xs \<and> j < length xs \<and> k < length xs
        then Inr (xs ! i, xs ! j, xs ! k) else Inl IndexError)"

definition astype_int :: "real \<Rightarrow> int" where
  "astype_int x = (if 0 \<le> x then \<lfloor>x\<rfloor> else \<lceil>x\<rceil>)"

definition astype_uint8 :: "real \<Rightarrow> u8" where
  "astype_uint8 x = word_of_int (astype_int x)"

definition to_buffer :: "int \<Rightarrow> vec2 \<Rightarrow> int \<times> int" where
  "to_buffer bs uv =
     (astype_int (fst uv * real_of_int (bs - 1)), astype_int (snd uv * real_of_int (bs - 1)))"

definition rvec :: "int \<times> int \<Rightarrow> vec2" where
  "rvec v = (real_of_int (fst v), real_of_int (snd v))"

definition set_texel :: "image \<Rightarrow> int \<Rightarrow> int \<Rightarrow> u8 rgba \<Rightarrow> image" where
  "set_texel buf y x c = buf[nat y := (buf ! nat y)[nat x := c]]"

definition raster_texel ::
  "int \<times> int \<Rightarrow> int \<times> int \<Rightarrow> int \<times> int \<Rightarrow> u8 rgba \<Rightarrow> u8 rgba \<Rightarrow> u8 rgba
     \<Rightarrow> int \<Rightarrow> int \<Rightarrow> image \<Rightarrow> image" where
  "raster_texel uv0 uv1 uv2 c0 c1 c2 y x buf =
     (let p = (real_of_int x + 1 / 2, real_of_int y + 1 / 2) in
      if is_point_in_triangle p (rvec uv0) (rvec uv1) (rvec uv2)
      then
        let color = barycentric_interpolate (rvec uv0) (rvec uv1) (rvec uv2) c0 c1 c2 p
        in set_texel buf y x (map_rgba astype_uint8 (map_rgba (\<lambda>v. clip v 0 255) color))
      else buf)"

definition rasterize_face ::
  "int \<Rightarrow> vec2 list \<Rightarrow> u8 rgba list \<Rightarrow> face \<Rightarrow> image \<Rightarrow> exn + image" where
  "rasterize_face bs uvs vertex_colors f buf =
     (case take3 uvs f of
        Inl e \<Rightarrow> Inl e
      | Inr (t0, t1, t2) \<Rightarrow>
          (case take3 vertex_colors f of
             Inl e \<Rightarrow> Inl e
           | Inr (c0, c1, c2) \<Rightarrow>
               let uv0 = to_buffer bs t0;
                   uv1 = to_buffer bs t1;
                   uv2 = to_buffer bs t2;
                   min_x = max (min (fst uv0) (min (fst uv1) (fst uv2))) 0;
                   max_x = min (max (fst uv0) (max (fst uv1) (fst uv2))) (bs - 1);
                   min_y = max (min (snd uv0) (min (snd uv1) (snd uv2))) 0;
                   max_y = min (max (snd uv0) (max (snd uv1) (snd uv2))) (bs - 1)
               in Inr (fold (\<lambda>y. fold (\<lambda>x. raster_texel uv0 uv1 uv2 c0 c1 c2 y x)
                                       [min_x..max_x])
                            [min_y..max_y] buf)))"

text \<open>
  The loop over the faces. An exception leaves the buffer as the faces before it wrote
  it, so the buffer is returned in either case.
\<close>

fun rasterize_faces ::
  "int \<Rightarrow> vec2 list \<Rightarrow> u8 rgba list \<Rightarrow> face list \<Rightarrow> image \<Rightarrow> exn option \<times> image" where
  "rasterize_faces bs uvs vertex_colors [] buf = (None, buf)"
| "rasterize_faces bs uvs vertex_colors (f # fs) buf =
     (case rasterize_face bs uvs vertex_colors f buf of
        Inl e \<Rightarrow> (Some e, buf)
      | Inr buf' \<Rightarrow> rasterize_faces bs uvs vertex_colors fs buf')"

subsection \<open>External collaborators\<close>

text \<open>
  trimesh, xatlas, OpenCV's inpainting and Pillow's filters are not part of the
  repository: they are parameters of the model. A loaded object may lack the attribute
  \<^verbatim>\<open>visual\<close> (a scene), and a visual may lack \<^verbatim>\<open>vertex_colors\<close> (a texture visual).
\<close>

datatype visual = ColorVisuals "u8 rgba list" | TextureVisuals "vec2 list" image

record mesh =
  vertices :: "vec3 list"
  faces :: "face list"
  visual :: "visual option"

fun vertex_colors_attr :: "visual \<Rightarrow> u8 rgba list option" where
  "vertex_colors_attr (ColorVisuals cs) = Some cs"
| "vertex_colors_attr (TextureVisuals uv img) = None"

record env =
  load :: "string \<Rightarrow> exn + mesh"
  parametrize :: "vec3 list \<Rightarrow> face list \<Rightarrow> nat list \<times> face list \<times> vec2 list"
  inpaint :: "bgr list list \<Rightarrow> u8 list list \<Rightarrow> int \<Rightarrow> bgr list list"
  median_filter :: "int \<Rightarrow> image \<Rightarrow> image"
  gaussian_blur :: "int \<Rightarrow> image \<Rightarrow> image"
  resize_lanczos :: "int \<Rightarrow> image \<Rightarrow> image"

record files = world +
  exported :: "(pure_path \<times> mesh) list"

text \<open>Indexing an array with an array of indices.\<close>

definition take_indices :: "'a list \<Rightarrow> nat list \<Rightarrow> exn + 'a list" where
  "take_indices xs is =
     (if \<forall>i \<in> set is. i < length xs then Inr (map (\<lambda>i. xs ! i) is) else Inl IndexError)"

subsection \<open>Gap filling and post-processing\<close>

text \<open>
  \<^verbatim>\<open>
  def _inpaint_texture(self) -> None:
      image_bgra = self.texture_buffer.copy()
      mask = (image_bgra[:, :, 3] == 0).astype(np.uint8) * 255
      image_bgr = cv2.cvtColor(image_bgra, cv2.COLOR_BGRA2BGR)
      inpainted_bgr = cv2.inpaint(image_bgr, mask, inpaintRadius=3, flags=cv2.INPAINT_TELEA)
      inpainted_bgra = cv2.cvtColor(inpainted_bgr, cv2.COLOR_BGR2BGRA)
      self.texture_buffer = inpainted_bgra[::-1]
  \<close>
  \<^verbatim>\<open>COLOR_BGRA2BGR\<close> drops the fourth channel and keeps the other three in place;
  \<^verbatim>\<open>COLOR_BGR2BGRA\<close> adds a fourth channel set to 255.
\<close>

fun drop_alpha :: "u8 rgba \<Rightarrow> bgr" where
  "drop_alpha (RGBA c0 c1 c2 c3) = (c0, c1, c2)"

fun add_alpha :: "bgr \<Rightarrow> u8 rgba" where
  "add_alpha (c0, c1, c2) = RGBA c0 c1 c2 255"

definition hole_mask :: "image \<Rightarrow> u8 list list" where
  "hole_mask img = map (map (\<lambda>t. (if alpha t = 0 then 1 else 0) * 255)) img"

definition inpaint_texture :: "env \<Rightarrow> converter \<Rightarrow> converter" where
  "inpaint_texture E self =
     (let image_bgra = texture_buffer self;
          mask = hole_mask image_bgra;
          image_bgr = map (map drop_alpha) image_bgra;
          inpainted_bgr = inpaint E image_bgr mask 3;
          inpainted_bgra = map (map add_alpha) inpainted_bgr
      in self\<lparr> texture_buffer := rev inpainted_bgra \<rparr>)"

text \<open>
  \<^verbatim>\<open>
  def _filter_and_resize_texture(self) -> None:
      self.texture = self.texture.filter(ImageFilter.MedianFilter(size=self.median_size))
      self.texture = self.texture.filter(ImageFilter.GaussianBlur(radius=self.blur_radius))
      self.texture = self.texture.resize((self.texture_size, self.texture_size), Image.Resampling.LANCZOS)
  \<close>
\<close>

definition filter_and_resize_texture :: "env \<Rightarrow> converter \<Rightarrow> converter" where
  "filter_and_resize_texture E self =
     self\<lparr> texture :=
       map_option (\<lambda>t. resize_lanczos E (texture_size self)
                         (gaussian_blur E (blur_radius self)
                           (median_filter E (median_size self) t)))
         (texture self) \<rparr>"

subsection \<open>The conversion\<close>

text \<open>
  \<^verbatim>\<open>
  def convert(self, input_mesh_path, output_mesh_path=None):
      output_mesh_path = self._validate_output_path(output_mesh_path)
      mesh = trimesh.load(input_mesh_path)
      if not hasattr(mesh, "visual") or not hasattr(mesh.visual, "vertex_colors"):
          warnings.warn("Input mesh must be an obj file with vertex colors.")
          return None
      vertex_colors = mesh.visual.vertex_colors
      vmapping, indices, uvs = xatlas.parametrize(mesh.vertices, mesh.faces)
      vertices = mesh.vertices[vmapping]
      vertex_colors = vertex_colors[vmapping]
      mesh.vertices = vertices
      mesh.faces = indices
      for face in mesh.faces: ...
      self._inpaint_texture()
      self.texture = Image.fromarray(self.texture_buffer)
      self._filter_and_resize_texture()
      material = trimesh.visual.material.PBRMaterial(..., baseColorTexture=self.texture, ...)
      visuals = trimesh.visual.TextureVisuals(uv=uvs, material=material)
      mesh.visual = visuals
      mesh.export(output_mesh_path)
      print(f"Processed mesh saved to {output_mesh_path}")
      return str(output_mesh_path)
  \<close>
  The result is the exception raised, \<^verbatim>\<open>None\<close>, or the output path as a string; the
  converter object and the outside world are returned as the call leaves them.
\<close>

definition colors_of :: "mesh \<Rightarrow> u8 rgba list option" where
  "colors_of m = (case visual m of None \<Rightarrow> None | Some v \<Rightarrow> vertex_colors_attr v)"

definition convert ::
  "env \<Rightarrow> string \<Rightarrow> string option \<Rightarrow> converter \<Rightarrow> files
     \<Rightarrow> (exn + string option) \<times> converter \<times> files" where
  "convert E input_mesh_path output_mesh_path self w =
     (case validate_output_path output_mesh_path w of
        Inl e \<Rightarrow> (Inl e, self, w)
      | Inr (out_path, w1) \<Rightarrow>
     (case load E input_mesh_path of
        Inl e \<Rightarrow> (Inl e, self, w1)
      | Inr m \<Rightarrow>
     (case colors_of m of
        None \<Rightarrow>
          (case warn ''Input mesh must be an obj file with vertex colors.'' NoCategory w1 of
             Inl e \<Rightarrow> (Inl e, self, w1)
           | Inr w2 \<Rightarrow> (Inr None, self, w2))
      | Some vertex_colors \<Rightarrow>
     (case parametrize E (vertices m) (faces m) of (vmapping, indices, uvs) \<Rightarrow>
     (case take_indices (vertices m) vmapping of
        Inl e \<Rightarrow> (Inl e, self, w1)
      | Inr vertices' \<Rightarrow>
     (case take_indices vertex_colors vmapping of
        Inl e \<Rightarrow> (Inl e, self, w1)
      | Inr vertex_colors' \<Rightarrow>
     (case rasterize_faces (buffer_size self) uvs vertex_colors' indices (texture_buffer self) of
        (Some e, buf) \<Rightarrow> (Inl e, self\<lparr> texture_buffer := buf \<rparr>, w1)
      | (None, buf) \<Rightarrow>
          let self1 = inpaint_texture E (self\<lparr> texture_buffer := buf \<rparr>);
              self2 = self1\<lparr> texture := Some (texture_buffer self1) \<rparr>;
              self3 = filter_and_resize_texture E self2;
              m' = \<lparr> vertices = vertices', faces = indices,
                     visual = Some (TextureVisuals uvs (the (texture self3))) \<rparr>;
              w2 = w1\<lparr> exported := exported w1 @ [(out_path, m')] \<rparr>;
              w3 = w2\<lparr> stdout := stdout w2 @ [''Processed mesh saved to '' @ path_str out_path] \<rparr>
          in (Inr (Some (path_str out_path)), self3, w3))))))))"

text \<open>
  What the inpainting call of \<open>inpaint_texture\<close> returns for a given buffer, and the two
  properties of OpenCV's inpainting that relate its output to its input: the output has
  the shape of the input, and a pixel outside the mask (a texel with non-zero alpha) keeps
  its value.
\<close>

definition inpainted :: "env \<Rightarrow> image \<Rightarrow> bgr list list" where
  "inpainted E buf = inpaint E (map (map drop_alpha) buf) (hole_mask buf) 3"

definition same_shape :: "env \<Rightarrow> image \<Rightarrow> bool" where
  "same_shape E buf \<longleftrightarrow>
     length (inpainted E buf) = length buf
     \<and> (\<forall>y < length buf. length (inpainted E buf ! y) = length (buf ! y))"

definition keeps_covered :: "env \<Rightarrow> image \<Rightarrow> bool" where
  "keeps_covered E buf \<longleftrightarrow>
     (\<forall>y < length buf. \<forall>x < length (buf ! y).
        alpha (buf ! y ! x) \<noteq> 0 \<longrightarrow> inpainted E buf ! y ! x = drop_alpha (buf ! y ! x))"




definition texel_centre :: "int \<Rightarrow> int \<Rightarrow> vec2" where
  "texel_centre x y = (real_of_int x + 1 / 2, real_of_int y + 1 / 2)"


definition in_box :: "int \<Rightarrow> int \<times> int \<Rightarrow> int \<times> int \<Rightarrow> int \<times> int \<Rightarrow> int \<Rightarrow> int \<Rightarrow> bool" where
  "in_box bs p0 p1 p2 x y \<longleftrightarrow>
     max (min (fst p0) (min (fst p1) (fst p2))) 0 \<le> x
     \<and> x \<le> min (max (fst p0) (max (fst p1) (fst p2))) (bs - 1)
     \<and> max (min (snd p0) (min (snd p1) (snd p2))) 0 \<le> y
     \<and> y \<le> min (max (snd p0) (max (snd p1) (snd p2))) (bs - 1)"

definition covered :: "int \<Rightarrow> int \<times> int \<Rightarrow> int \<times> int \<Rightarrow> int \<times> int \<Rightarrow> int \<Rightarrow> int \<Rightarrow> bool" where
  "covered bs p0 p1 p2 x y \<longleftrightarrow>
     in_box bs p0 p1 p2 x y
     \<and> is_point_in_triangle (texel_centre x y) (rvec p0) (rvec p1) (rvec p2)"



subsection \<open>A small concrete setting for evaluating the model\<close>

text \<open>
  One triangle with red, green and blue corners that the unwrapper maps to the UV corners
  \<open>(0, 0)\<close>, \<open>(1, 0)\<close>, \<open>(0, 1)\<close>; an inpainting stand-in that paints every masked pixel
  mid-grey and keeps the others; filters that return their input; a converter with a
  buffer of side 2. \<open>plain_env\<close> loads a mesh that has a texture visual and therefore no
  vertex colours.
\<close>

definition empty_world :: files where
  "empty_world = \<lparr> warnings = [], stdout = [], exported = [] \<rparr>"

definition demo_mesh :: mesh where
  "demo_mesh = \<lparr> vertices = [(0, 0, 0), (1, 0, 0), (0, 1, 0)], faces = [(0, 1, 2)],
                 visual = Some (ColorVisuals
                   [RGBA 255 0 0 255, RGBA 0 255 0 255, RGBA 0 0 255 255]) \<rparr>"

definition plain_mesh :: mesh where
  "plain_mesh = \<lparr> vertices = [(0, 0, 0), (1, 0, 0), (0, 1, 0)], faces = [(0, 1, 2)],
                  visual = Some (TextureVisuals [] []) \<rparr>"

definition demo_inpaint :: "bgr list list \<Rightarrow> u8 list list \<Rightarrow> int \<Rightarrow> bgr list list" where
  "demo_inpaint img holes radius =
     map2 (map2 (\<lambda>px m. if m = 0 then px else (128, 128, 128))) img holes"

definition demo_env :: env where
  "demo_env = \<lparr> load = (\<lambda>path. Inr demo_mesh),
                parametrize = (\<lambda>vs fs. ([0, 1, 2], [(0, 1, 2)], [(0, 0), (1, 0), (0, 1)])),
                inpaint = demo_inpaint,
                median_filter = (\<lambda>size img. img),
                gaussian_blur = (\<lambda>radius img. img),
                resize_lanczos = (\<lambda>size img. img) \<rparr>"

definition plain_env :: env where
  "plain_env = demo_env\<lparr> load := (\<lambda>path. Inr plain_mesh) \<rparr>"

definition demo_converter :: converter where
  "demo_converter = \<lparr> texture_size = 2, upscaling = 1, buffer_size = 2, median_size = 3,
                      blur_radius = 1,
                      texture_buffer = [[RGBA 0 0 0 0, RGBA 0 0 0 0], [RGBA 0 0 0 0, RGBA 0 0 0 0]],
                      texture = None \<rparr>"

text \<open>The converter and the outside world as the first conversion leaves them.\<close>

definition after_first_call :: converter where
  "after_first_call = demo_converter\<lparr>
     texture_buffer :=
       [[RGBA 128 128 128 255, RGBA 128 128 128 255],
        [RGBA 0 127 127 255, RGBA 128 128 128 255]],
     texture := Some
       [[RGBA 128 128 128 255, RGBA 128 128 128 255],
        [RGBA 0 127 127 255, RGBA 128 128 128 255]] \<rparr>"

definition world_after_first_call :: files where
  "world_after_first_call = empty_world\<lparr>
     stdout := [''Processed mesh saved to output.glb''],
     exported := [(Path ''output.glb'',
       \<lparr> vertices = [(0, 0, 0), (1, 0, 0), (0, 1, 0)], faces = [(0, 1, 2)],
         visual = Some (TextureVisuals [(0, 0), (1, 0), (0, 1)]
           [[RGBA 128 128 128 255, RGBA 128 128 128 255],
            [RGBA 0 127 127 255, RGBA 128 128 128 255]]) \<rparr>)] \<rparr>"

definition raster_demo :: converter where
  "raster_demo = demo_converter\<lparr> texture_buffer :=
     [[RGBA 0 127 127 255, RGBA 0 0 0 0], [RGBA 0 0 0 0, RGBA 9 8 7 1]] \<rparr>"



section \<open>Properties of the point-in-triangle test\<close>

lemma sign_swap: "sign p b a = - sign p a b"
  by (simp add: sign_def algebra_simps)

lemma same_sign_inside:
  assumes "sign p v0 v1 = a * k" "sign p v1 v2 = b * k" "sign p v2 v0 = c * k"
    and "0 \<le> a" "0 \<le> b" "0 \<le> c"
  shows "is_point_in_triangle p v0 v1 v2"
proof (cases "0 \<le> k")
  case True
  then have "0 \<le> a * k" "0 \<le> b * k" "0 \<le> c * k" using assms by simp_all
  then show ?thesis using assms unfolding is_point_in_triangle_def Let_def by auto
next
  case False
  then have "a * k \<le> 0" "b * k \<le> 0" "c * k \<le> 0" using assms
    by (simp_all add: mult_nonneg_nonpos)
  then show ?thesis using assms unfolding is_point_in_triangle_def Let_def by auto
qed

lemma edge01_inside:
  assumes "0 \<le> t" "t \<le> 1"
  shows "is_point_in_triangle (lerp v0 v1 t) v0 v1 v2"
proof (rule same_sign_inside[where a=0 and b="1 - t" and c=t and k="area2 v0 v1 v2"])
  show "sign (lerp v0 v1 t) v0 v1 = 0 * area2 v0 v1 v2"
    by (simp add: sign_def lerp_def area2_def algebra_simps)
  show "sign (lerp v0 v1 t) v1 v2 = (1 - t) * area2 v0 v1 v2"
    by (simp add: sign_def lerp_def area2_def algebra_simps)
  show "sign (lerp v0 v1 t) v2 v0 = t * area2 v0 v1 v2"
    by (simp add: sign_def lerp_def area2_def algebra_simps)
qed (use assms in simp_all)

lemma edge12_inside:
  assumes "0 \<le> t" "t \<le> 1"
  shows "is_point_in_triangle (lerp v1 v2 t) v0 v1 v2"
proof (rule same_sign_inside[where a=t and b=0 and c="1 - t" and k="area2 v0 v1 v2"])
  show "sign (lerp v1 v2 t) v0 v1 = t * area2 v0 v1 v2"
    by (simp add: sign_def lerp_def area2_def algebra_simps)
  show "sign (lerp v1 v2 t) v1 v2 = 0 * area2 v0 v1 v2"
    by (simp add: sign_def lerp_def area2_def algebra_simps)
  show "sign (lerp v1 v2 t) v2 v0 = (1 - t) * area2 v0 v1 v2"
    by (simp add: sign_def lerp_def area2_def algebra_simps)
qed (use assms in simp_all)

lemma edge20_inside:
  assumes "0 \<le> t" "t \<le> 1"
  shows "is_point_in_triangle (lerp v2 v0 t) v0 v1 v2"
proof (rule same_sign_inside[where a="1 - t" and b=t and c=0 and k="area2 v0 v1 v2"])
  show "sign (lerp v2 v0 t) v0 v1 = (1 - t) * area2 v0 v1 v2"
    by (simp add: sign_def lerp_def area2_def algebra_simps)
  show "sign (lerp v2 v0 t) v1 v2 = t * area2 v0 v1 v2"
    by (simp add: sign_def lerp_def area2_def algebra_simps)
  show "sign (lerp v2 v0 t) v2 v0 = 0 * area2 v0 v1 v2"
    by (simp add: sign_def lerp_def area2_def algebra_simps)
qed (use assms in simp_all)

lemma vertices_inside:
  "is_point_in_triangle v0 v0 v1 v2"
  "is_point_in_triangle v1 v0 v1 v2"
  "is_point_in_triangle v2 v0 v1 v2"
  unfolding is_point_in_triangle_def Let_def sign_def
  by (auto simp: algebra_simps not_less)

text \<open>
  Claim C3. \<open>is_point_in_triangle p v0 v1 v2\<close> holds exactly when the three edge functions
  are all non-negative or all non-positive, that is, when they are not a mix of strictly
  positive and strictly negative values. In particular the test is inclusive: it holds
  when all three edge functions are zero, at each corner, and at every point of each of
  the three edges.
\<close>

theorem is_point_in_triangle_iff_no_mixed_signs:
  "(is_point_in_triangle p v0 v1 v2 \<longleftrightarrow>
      (0 \<le> sign p v0 v1 \<and> 0 \<le> sign p v1 v2 \<and> 0 \<le> sign p v2 v0) \<or>
      (sign p v0 v1 \<le> 0 \<and> sign p v1 v2 \<le> 0 \<and> sign p v2 v0 \<le> 0))
   \<and> (sign p v0 v1 = 0 \<and> sign p v1 v2 = 0 \<and> sign p v2 v0 = 0
        \<longrightarrow> is_point_in_triangle p v0 v1 v2)
   \<and> is_point_in_triangle v0 v0 v1 v2
   \<and> is_point_in_triangle v1 v0 v1 v2
   \<and> is_point_in_triangle v2 v0 v1 v2
   \<and> (0 \<le> t \<and> t \<le> 1 \<longrightarrow>
        is_point_in_triangle (lerp v0 v1 t) v0 v1 v2
      \<and> is_point_in_triangle (lerp v1 v2 t) v0 v1 v2
      \<and> is_point_in_triangle (lerp v2 v0 t) v0 v1 v2)"
proof -
  have iff: "is_point_in_triangle p v0 v1 v2 \<longleftrightarrow>
      (0 \<le> sign p v0 v1 \<and> 0 \<le> sign p v1 v2 \<and> 0 \<le> sign p v2 v0) \<or>
      (sign p v0 v1 \<le> 0 \<and> sign p v1 v2 \<le> 0 \<and> sign p v2 v0 \<le> 0)"
    unfolding is_point_in_triangle_def Let_def by auto
  have zero: "sign p v0 v1 = 0 \<and> sign p v1 v2 = 0 \<and> sign p v2 v0 = 0
        \<longrightarrow> is_point_in_triangle p v0 v1 v2"
    unfolding is_point_in_triangle_def Let_def by auto
  have edges: "0 \<le> t \<and> t \<le> 1 \<longrightarrow>
        is_point_in_triangle (lerp v0 v1 t) v0 v1 v2
      \<and> is_point_in_triangle (lerp v1 v2 t) v0 v1 v2
      \<and> is_point_in_triangle (lerp v2 v0 t) v0 v1 v2"
    by (simp add: edge01_inside edge12_inside edge20_inside)
  show ?thesis
    by (rule conjI iff zero vertices_inside edges)+
qed

theorem is_point_in_triangle_iff_no_mixed_signs_witness:
  "(0::real) \<le> 1 / 2 \<and> (1::real) / 2 \<le> 1
   \<and> sign (1, 0) (0, 0) (2, 0) = 0
   \<and> lerp (0, 0) (2, 0) (1 / 2) = (1, 0)
   \<and> is_point_in_triangle (1, 0) (0, 0) (2, 0) (0, 2)
   \<and> \<not> is_point_in_triangle (3, 3) (0, 0) (2, 0) (0, 2)"
proof -
  have l: "lerp (0, 0) (2, 0) (1 / 2) = (1, 0)" by (simp add: lerp_def)
  have "is_point_in_triangle (lerp (0, 0) (2, 0) (1 / 2)) (0, 0) (2, 0) (0, 2)"
    using is_point_in_triangle_iff_no_mixed_signs[of "(1, 0)" "(0, 0)" "(2, 0)" "(0, 2)" "1 / 2"]
    by simp
  moreover have "\<not> is_point_in_triangle (3, 3) (0, 0) (2, 0) (0, 2)"
    using is_point_in_triangle_iff_no_mixed_signs[of "(3, 3)" "(0, 0)" "(2, 0)" "(0, 2)" 0]
    by (simp add: sign_def)
  ultimately show ?thesis using l by (simp add: sign_def)
qed

text \<open>
  Claim C10. The result of \<open>is_point_in_triangle\<close> does not depend on the order in which
  the three corners are given: it is the same under each of the five non-trivial
  permutations (the three transpositions and the two rotations), hence independent of the
  winding order of the face.
\<close>

theorem is_point_in_triangle_permutation_invariant:
  "is_point_in_triangle p v1 v0 v2 = is_point_in_triangle p v0 v1 v2
   \<and> is_point_in_triangle p v0 v2 v1 = is_point_in_triangle p v0 v1 v2
   \<and> is_point_in_triangle p v2 v1 v0 = is_point_in_triangle p v0 v1 v2
   \<and> is_point_in_triangle p v1 v2 v0 = is_point_in_triangle p v0 v1 v2
   \<and> is_point_in_triangle p v2 v0 v1 = is_point_in_triangle p v0 v1 v2"
  unfolding is_point_in_triangle_def Let_def
  by (auto simp: sign_swap[of p v1 v0] sign_swap[of p v2 v1] sign_swap[of p v0 v2])


section \<open>Properties of the colour interpolation\<close>

lemma u8_real_bounds: "0 \<le> float_of_u8 x \<and> float_of_u8 x \<le> 255"
proof -
  have "unat x < 2 ^ 8" using unsigned_less[of x, where ?'a = nat] by simp
  then have "unat x \<le> 255" by simp
  then have "real (unat x) \<le> real 255" by (rule of_nat_mono)
  moreover have "0 \<le> real (unat x)" by (rule of_nat_0_le_iff)
  ultimately show ?thesis unfolding float_of_u8_def by simp
qed

lemma clip_u8: "clip (float_of_u8 x) 0 255 = float_of_u8 x"
  using u8_real_bounds[of x] by (simp add: clip_def)

lemma clip_bounds: "lo \<le> hi \<Longrightarrow> lo \<le> clip x lo hi \<and> clip x lo hi \<le> hi"
  by (simp add: clip_def)

lemma clip_id: "lo \<le> x \<Longrightarrow> x \<le> hi \<Longrightarrow> clip x lo hi = x"
  by (simp add: clip_def)

lemma bary_nondegenerate:
  assumes "1 / 10 ^ 8 \<le> \<bar>denom_of v0 v1 v2\<bar>"
  shows "barycentric_interpolate v0 v1 v2 c0 c1 c2 p =
     (case bary_weights v0 v1 v2 p of (u, v, w) \<Rightarrow>
        map_rgba (\<lambda>x. clip x 0 255) (weighted_sum (clip u 0 1) (clip v 0 1) (clip w 0 1) c0 c1 c2))"
proof -
  from assms have nd: "\<not> \<bar>denom_of v0 v1 v2\<bar> < 1 / 10 ^ 8" by simp
  then show ?thesis
    unfolding barycentric_interpolate_def bary_weights_def weighted_sum_def denom_of_def Let_def
    by (simp only: if_False prod.case)
qed

lemma bary_degenerate:
  assumes "\<bar>denom_of v0 v1 v2\<bar> < 1 / 10 ^ 8"
  shows "barycentric_interpolate v0 v1 v2 c0 c1 c2 p =
     map_rgba (\<lambda>s. float_of_u8 s / 3) (zip_rgba (+) (zip_rgba (+) c0 c1) c2)"
  using assms
  unfolding barycentric_interpolate_def denom_of_def Let_def
  by (simp only: if_True)

lemma weights_v0:
  "bary_weights v0 v1 v2 v0 = (1, 0, 0)"
  by (simp add: bary_weights_def Let_def vsub_def dot_def)

lemma weights_v1:
  assumes "denom_of v0 v1 v2 \<noteq> 0"
  shows "bary_weights v0 v1 v2 v1 = (0, 1, 0)"
  using assms by (simp add: bary_weights_def denom_of_def Let_def vsub_def dot_def algebra_simps)

lemma weights_v2:
  assumes "denom_of v0 v1 v2 \<noteq> 0"
  shows "bary_weights v0 v1 v2 v2 = (0, 0, 1)"
  using assms by (simp add: bary_weights_def denom_of_def Let_def vsub_def dot_def algebra_simps)

lemma weights_centroid:
  assumes "denom_of v0 v1 v2 \<noteq> 0"
  shows "bary_weights v0 v1 v2 (centroid v0 v1 v2) = (1/3, 1/3, 1/3)"
proof -
  obtain x0 y0 where v0: "v0 = (x0, y0)" by (cases v0)
  obtain x1 y1 where v1: "v1 = (x1, y1)" by (cases v1)
  obtain x2 y2 where v2: "v2 = (x2, y2)" by (cases v2)
  define a where "a = x1 - x0"
  define b where "b = y1 - y0"
  define c where "c = x2 - x0"
  define d where "d = y2 - y0"
  define D where "D = (a*a + b*b) * (c*c + d*d) - (a*c + b*d) * (a*c + b*d)"
  have D: "D \<noteq> 0" using assms by (simp add: D_def a_def b_def c_def d_def v0 v1 v2 denom_of_def Let_def vsub_def dot_def)
  have q: "(x0 + x1 + x2) / 3 - x0 = (a + c) / 3" "(y0 + y1 + y2) / 3 - y0 = (b + d) / 3"
    by (simp_all add: a_def b_def c_def d_def field_simps)
  have n1: "(c*c + d*d) * ((a + c) / 3 * a + (b + d) / 3 * b) - (a*c + b*d) * ((a + c) / 3 * c + (b + d) / 3 * d) = D / 3"
    by (simp add: D_def field_simps)
  have n2: "(a*a + b*b) * ((a + c) / 3 * c + (b + d) / 3 * d) - (a*c + b*d) * ((a + c) / 3 * a + (b + d) / 3 * b) = D / 3"
    by (simp add: D_def field_simps)
  show ?thesis
    unfolding bary_weights_def Let_def vsub_def dot_def centroid_def v0 v1 v2 fst_conv snd_conv q
    unfolding a_def[symmetric] b_def[symmetric] c_def[symmetric] d_def[symmetric]
    unfolding n1 n2 D_def[symmetric]
    using D by simp
qed

text \<open>The weights really are barycentric coordinates of \<open>p\<close>: they sum to one and
  reproduce \<open>p\<close> from the corners.\<close>

lemma weights_barycentric:
  assumes "denom_of v0 v1 v2 \<noteq> 0"
  shows "case bary_weights v0 v1 v2 p of (u, v, w) \<Rightarrow>
     u + v + w = 1 \<and> u * fst v0 + v * fst v1 + w * fst v2 = fst p \<and> u * snd v0 + v * snd v1 + w * snd v2 = snd p"
proof -
  obtain x0 y0 where v0: "v0 = (x0, y0)" by (cases v0)
  obtain x1 y1 where v1: "v1 = (x1, y1)" by (cases v1)
  obtain x2 y2 where v2: "v2 = (x2, y2)" by (cases v2)
  obtain px py where p: "p = (px, py)" by (cases p)
  define a where "a = x1 - x0"
  define b where "b = y1 - y0"
  define c where "c = x2 - x0"
  define d where "d = y2 - y0"
  define e where "e = px - x0"
  define f where "f = py - y0"
  define D where "D = (a*a + b*b) * (c*c + d*d) - (a*c + b*d) * (a*c + b*d)"
  define V where "V = ((c*c + d*d) * (e*a + f*b) - (a*c + b*d) * (e*c + f*d)) / D"
  define W where "W = ((a*a + b*b) * (e*c + f*d) - (a*c + b*d) * (e*a + f*b)) / D"
  have D: "D \<noteq> 0" using assms by (simp add: D_def a_def b_def c_def d_def v0 v1 v2 denom_of_def Let_def vsub_def dot_def)
  have bw: "bary_weights v0 v1 v2 p = (1 - V - W, V, W)"
    unfolding bary_weights_def Let_def vsub_def dot_def v0 v1 v2 p fst_conv snd_conv V_def W_def D_def a_def b_def c_def d_def e_def f_def
    by (rule refl)
  have X: "V * a + W * c = e"
  proof -
    have "(V * a + W * c) * D = e * D"
      unfolding V_def W_def using D by (simp add: field_simps) (simp add: D_def algebra_simps)
    then show ?thesis using D by simp
  qed
  have Y: "V * b + W * d = f"
  proof -
    have "(V * b + W * d) * D = f * D"
      unfolding V_def W_def using D by (simp add: field_simps) (simp add: D_def algebra_simps)
    then show ?thesis using D by simp
  qed
  have "(1 - V - W) * x0 + V * x1 + W * x2 = x0 + (V * a + W * c)"
    by (simp add: a_def c_def algebra_simps)
  moreover have "(1 - V - W) * y0 + V * y1 + W * y2 = y0 + (V * b + W * d)"
    by (simp add: b_def d_def algebra_simps)
  ultimately show ?thesis
    unfolding bw prod.case
    unfolding v0 v1 v2 p fst_conv snd_conv X Y by (simp add: e_def f_def)
qed

lemma weighted_sum_unit:
  "weighted_sum 1 0 0 c0 c1 c2 = to_float c0"
  "weighted_sum 0 1 0 c0 c1 c2 = to_float c1"
  "weighted_sum 0 0 1 c0 c1 c2 = to_float c2"
  by (cases c0; cases c1; cases c2; simp add: weighted_sum_def scale_def to_float_def)+

lemma weighted_sum_third:
  "weighted_sum (1/3) (1/3) (1/3) c0 c1 c2 = average3 c0 c1 c2"
  by (cases c0; cases c1; cases c2) (simp add: weighted_sum_def scale_def to_float_def average3_def)

lemma clip_to_float: "map_rgba (\<lambda>x. clip x 0 255) (to_float c) = to_float c"
  by (cases c) (simp add: to_float_def clip_u8)

lemma avg_bounds: "0 \<le> (float_of_u8 x + float_of_u8 y + float_of_u8 z) / 3 \<and> (float_of_u8 x + float_of_u8 y + float_of_u8 z) / 3 \<le> 255"
  using u8_real_bounds[of x] u8_real_bounds[of y] u8_real_bounds[of z] by simp

lemma clip_avg: "clip ((float_of_u8 x + float_of_u8 y + float_of_u8 z) / 3) 0 255 = (float_of_u8 x + float_of_u8 y + float_of_u8 z) / 3"
  using avg_bounds[of x y z] by (simp only: clip_id)

lemma clip_average3: "map_rgba (\<lambda>x. clip x 0 255) (average3 c0 c1 c2) = average3 c0 c1 c2"
  by (cases c0; cases c1; cases c2) (simp only: average3_def to_float_def rgba.map zip_rgba.simps clip_avg)

lemma clipped_in_range: "\<forall>x \<in> set_rgba (map_rgba (\<lambda>x. clip x 0 255) c). 0 \<le> x \<and> x \<le> 255"
  by (cases c) (simp add: clip_def)


lemma nondegenerate_nonzero:
  "1 / 10 ^ 8 \<le> \<bar>denom_of v0 v1 v2\<bar> \<Longrightarrow> denom_of v0 v1 v2 \<noteq> 0"
  by auto

text \<open>
  Claim C4. When the denominator is below \<open>1e-8\<close> in absolute value, the function returns
  \<^verbatim>\<open>(c0 + c1 + c2) / 3\<close> without dividing by the denominator. For the byte colours
  the rasteriser passes, the sum \<^verbatim>\<open>c0 + c1 + c2\<close> is computed in bytes and wraps modulo
  256, so the result is not the unweighted average of the three colours: a face whose three
  corners fall on the texel \<open>(3, 3)\<close>, with the same opaque light grey
  \<open>(200, 200, 200, 255)\<close> at each corner, gets \<open>(88/3, 88/3, 88/3, 253/3)\<close> where the
  average is \<open>(200, 200, 200, 255)\<close>.
\<close>

theorem barycentric_degenerate_byte_sum_wraps:
  "\<bar>denom_of (3, 3) (3, 3) (3, 3)\<bar> < 1 / 10 ^ 8
   \<and> is_point_in_triangle (7 / 2, 7 / 2) (3, 3) (3, 3) (3, 3)
   \<and> barycentric_interpolate (3, 3) (3, 3) (3, 3)
        (RGBA 200 200 200 255) (RGBA 200 200 200 255) (RGBA 200 200 200 255) (7 / 2, 7 / 2)
      = RGBA (88 / 3) (88 / 3) (88 / 3) (253 / 3)
   \<and> average3 (RGBA 200 200 200 255) (RGBA 200 200 200 255) (RGBA 200 200 200 255)
      = RGBA 200 200 200 255
   \<and> barycentric_interpolate (3, 3) (3, 3) (3, 3)
        (RGBA 200 200 200 255) (RGBA 200 200 200 255) (RGBA 200 200 200 255) (7 / 2, 7 / 2)
      \<noteq> average3 (RGBA 200 200 200 255) (RGBA 200 200 200 255) (RGBA 200 200 200 255)"
  by (simp add: barycentric_interpolate_def denom_of_def vsub_def dot_def float_of_u8_def
      average3_def to_float_def is_point_in_triangle_def sign_def)

text \<open>
  What does hold in the degenerate branch: the result is the byte sum divided by three,
  and it is the unweighted average whenever no channel sum exceeds 255.
\<close>

lemma u8_sum3_no_wrap:
  assumes "unat x + unat y + unat z < 256"
  shows "float_of_u8 (x + y + z) = float_of_u8 x + float_of_u8 y + float_of_u8 z"
proof -
  have xy: "unat (x + y) = unat x + unat y"
    using assms by (simp add: unat_word_ariths)
  have "unat (x + y + z) = unat x + unat y + unat z"
    using assms xy by (simp add: unat_word_ariths)
  then show ?thesis
    unfolding float_of_u8_def by (simp only: of_nat_add)
qed

lemma barycentric_degenerate_average_without_overflow:
  assumes "\<bar>denom_of v0 v1 v2\<bar> < 1 / 10 ^ 8"
    and "unat r0 + unat r1 + unat r2 < 256" "unat g0 + unat g1 + unat g2 < 256"
    and "unat b0 + unat b1 + unat b2 < 256" "unat a0 + unat a1 + unat a2 < 256"
  shows "barycentric_interpolate v0 v1 v2 (RGBA r0 g0 b0 a0) (RGBA r1 g1 b1 a1) (RGBA r2 g2 b2 a2) p
           = average3 (RGBA r0 g0 b0 a0) (RGBA r1 g1 b1 a1) (RGBA r2 g2 b2 a2)"
  unfolding bary_degenerate[OF assms(1)] average3_def to_float_def
  by (simp add: u8_sum3_no_wrap assms(2-5))

text \<open>
  Claim C5. When the denominator is at least \<open>1e-8\<close> in absolute value, the function
  returns the weighted sum \<open>u * c0 + v * c1 + w * c2\<close>, clamped channel by channel to
  \<open>[0, 255]\<close>, where \<open>(u, v, w)\<close> are the barycentric weights of \<open>p\<close> from the dot-product
  formulation (they satisfy \<open>u = 1 - v - w\<close> and reproduce \<open>p\<close> from the corners), each
  clamped to \<open>[0, 1]\<close> on its own, with no renormalisation of the clamped weights.
\<close>

theorem barycentric_nondegenerate_clamped_weighted_sum:
  assumes "1 / 10 ^ 8 \<le> \<bar>denom_of v0 v1 v2\<bar>"
  shows "barycentric_interpolate v0 v1 v2 c0 c1 c2 p =
           (case bary_weights v0 v1 v2 p of (u, v, w) \<Rightarrow>
              map_rgba (\<lambda>x. clip x 0 255)
                (weighted_sum (clip u 0 1) (clip v 0 1) (clip w 0 1) c0 c1 c2))
         \<and> (case bary_weights v0 v1 v2 p of (u, v, w) \<Rightarrow>
              u + v + w = 1
              \<and> u * fst v0 + v * fst v1 + w * fst v2 = fst p
              \<and> u * snd v0 + v * snd v1 + w * snd v2 = snd p)
         \<and> (\<forall>x \<in> set_rgba (barycentric_interpolate v0 v1 v2 c0 c1 c2 p). 0 \<le> x \<and> x \<le> 255)"
proof -
  have eq: "barycentric_interpolate v0 v1 v2 c0 c1 c2 p =
           (case bary_weights v0 v1 v2 p of (u, v, w) \<Rightarrow>
              map_rgba (\<lambda>x. clip x 0 255)
                (weighted_sum (clip u 0 1) (clip v 0 1) (clip w 0 1) c0 c1 c2))"
    by (rule bary_nondegenerate[OF assms])
  have w: "case bary_weights v0 v1 v2 p of (u, v, w) \<Rightarrow>
              u + v + w = 1
              \<and> u * fst v0 + v * fst v1 + w * fst v2 = fst p
              \<and> u * snd v0 + v * snd v1 + w * snd v2 = snd p"
    by (rule weights_barycentric[OF nondegenerate_nonzero[OF assms]])
  have r: "\<forall>x \<in> set_rgba (barycentric_interpolate v0 v1 v2 c0 c1 c2 p). 0 \<le> x \<and> x \<le> 255"
    unfolding eq using clipped_in_range by (cases "bary_weights v0 v1 v2 p") simp
  show ?thesis by (rule conjI eq w r)+
qed

theorem barycentric_nondegenerate_clamped_weighted_sum_witness:
  "1 / 10 ^ 8 \<le> \<bar>denom_of (0, 0) (4, 0) (0, 4)\<bar>
   \<and> bary_weights (0, 0) (4, 0) (0, 4) (4, 4) = (- 1, 1, 1)
   \<and> barycentric_interpolate (0, 0) (4, 0) (0, 4)
        (RGBA 10 20 30 255) (RGBA 100 0 0 255) (RGBA 200 0 0 255) (4, 4)
      = RGBA 255 0 0 255"
proof -
  have h: "1 / 10 ^ 8 \<le> \<bar>denom_of (0, 0) (4, 0) (0, 4)\<bar>"
    by (simp add: denom_of_def vsub_def dot_def)
  have bw: "bary_weights (0, 0) (4, 0) (0, 4) (4, 4) = (- 1, 1, 1)"
    by (simp add: bary_weights_def vsub_def dot_def)
  have "barycentric_interpolate (0, 0) (4, 0) (0, 4)
        (RGBA 10 20 30 255) (RGBA 100 0 0 255) (RGBA 200 0 0 255) (4, 4)
      = RGBA 255 0 0 255"
    unfolding barycentric_nondegenerate_clamped_weighted_sum[OF h, THEN conjunct1] bw prod.case
    by (simp add: weighted_sum_def scale_def clip_def float_of_u8_def)
  then show ?thesis using h bw by simp
qed

text \<open>
  Claim C7. For a non-degenerate triangle (denominator at least \<open>1e-8\<close> in absolute value)
  the interpolated colour at each corner's own position is exactly that corner's colour,
  and at the centroid it is exactly the unweighted average of the three corner colours;
  exact equality in real arithmetic gives equality within any rounding tolerance.
\<close>

theorem barycentric_exact_at_vertices_and_centroid:
  assumes "1 / 10 ^ 8 \<le> \<bar>denom_of v0 v1 v2\<bar>"
  shows "barycentric_interpolate v0 v1 v2 c0 c1 c2 v0 = to_float c0
       \<and> barycentric_interpolate v0 v1 v2 c0 c1 c2 v1 = to_float c1
       \<and> barycentric_interpolate v0 v1 v2 c0 c1 c2 v2 = to_float c2
       \<and> barycentric_interpolate v0 v1 v2 c0 c1 c2 (centroid v0 v1 v2) = average3 c0 c1 c2"
proof -
  note nz = nondegenerate_nonzero[OF assms]
  have third: "clip (1 / 3) 0 1 = 1 / 3" and one: "clip 1 0 1 = 1" and zero: "clip 0 0 1 = 0"
    by (simp_all add: clip_def)
  have a: "barycentric_interpolate v0 v1 v2 c0 c1 c2 v0 = to_float c0"
    unfolding bary_nondegenerate[OF assms] weights_v0
    by (simp only: prod.case one zero weighted_sum_unit clip_to_float)
  have b: "barycentric_interpolate v0 v1 v2 c0 c1 c2 v1 = to_float c1"
    unfolding bary_nondegenerate[OF assms] weights_v1[OF nz]
    by (simp only: prod.case one zero weighted_sum_unit clip_to_float)
  have c: "barycentric_interpolate v0 v1 v2 c0 c1 c2 v2 = to_float c2"
    unfolding bary_nondegenerate[OF assms] weights_v2[OF nz]
    by (simp only: prod.case one zero weighted_sum_unit clip_to_float)
  have d: "barycentric_interpolate v0 v1 v2 c0 c1 c2 (centroid v0 v1 v2) = average3 c0 c1 c2"
    unfolding bary_nondegenerate[OF assms] weights_centroid[OF nz]
    by (simp only: prod.case third weighted_sum_third clip_average3)
  show ?thesis by (rule conjI a b c d)+
qed

theorem barycentric_exact_at_vertices_and_centroid_witness:
  "1 / 10 ^ 8 \<le> \<bar>denom_of (0, 0) (6, 0) (0, 6)\<bar>
   \<and> barycentric_interpolate (0, 0) (6, 0) (0, 6)
        (RGBA 255 0 0 255) (RGBA 0 255 0 255) (RGBA 0 0 255 255) (6, 0) = RGBA 0 255 0 255
   \<and> centroid (0, 0) (6, 0) (0, 6) = (2, 2)
   \<and> barycentric_interpolate (0, 0) (6, 0) (0, 6)
        (RGBA 255 0 0 255) (RGBA 0 255 0 255) (RGBA 0 0 255 255) (2, 2) = RGBA 85 85 85 255"
proof -
  have h: "1 / 10 ^ 8 \<le> \<bar>denom_of (0, 0) (6, 0) (0, 6)\<bar>"
    by (simp add: denom_of_def vsub_def dot_def)
  have c: "centroid (0, 0) (6, 0) (0, 6) = (2, 2)"
    by (simp add: centroid_def)
  show ?thesis
    using h c barycentric_exact_at_vertices_and_centroid[OF h,
        of "RGBA 255 0 0 255" "RGBA 0 255 0 255" "RGBA 0 0 255 255"]
    by (simp add: to_float_def average3_def float_of_u8_def)
qed

section \<open>Properties of the output path validation\<close>

lemmas path_eval_defs =
  validate_output_path_def suffix_def Path_def path_name_def rfind_dot_def lower_def
  lower_char_def with_suffix_def warn_def path_str_def

lemma validate_wrong_suffix_raises:
  assumes "lower (suffix (Path s)) \<noteq> ''.glb''"
  shows "validate_output_path (Some s) w = Inl TypeError
       \<or> validate_output_path (Some s) w = Inl ValueError"
  using assms
  by (auto simp: validate_output_path_def Let_def warn_def with_suffix_def split: sum.splits)

lemma validate_glb_unchanged:
  assumes "lower (suffix (Path s)) = ''.glb''"
  shows "validate_output_path (Some s) w = Inr (Path s, w)"
  using assms by (simp add: validate_output_path_def Let_def)

lemma validate_None_default:
  "validate_output_path None w = Inr (Path ''output.glb'', w)"
  by (simp add: validate_output_path_def)

lemma validate_success_keeps_world:
  assumes "validate_output_path out w = Inr (p, w1)"
  shows "w1 = w"
  using assms
  by (auto simp: validate_output_path_def Let_def warn_def split: option.splits if_splits sum.splits)

text \<open>
  Claim C1. A \<^verbatim>\<open>None\<close> path yields \<^verbatim>\<open>output.glb\<close> and a path whose suffix is
  \<^verbatim>\<open>.glb\<close> in any letter case is returned unchanged (the two lemmas above). For a
  path with another or no suffix the operation does not return the corrected path: the
  corrected path \<^verbatim>\<open>model.glb\<close> is computed, but the call of \<^verbatim>\<open>warnings.warn\<close> that
  follows raises \<^verbatim>\<open>TypeError\<close>, and no warning is issued.
\<close>

theorem validate_output_path_raises_on_wrong_extension:
  "validate_output_path (Some ''model.obj'') w = Inl TypeError
   \<and> validate_output_path (Some ''out/model'') w = Inl TypeError
   \<and> lower (suffix (Path ''model.obj'')) \<noteq> ''.glb''
   \<and> with_suffix (Path ''model.obj'') ''.glb'' = Inr (Path ''model.glb'')"
  by (simp add: path_eval_defs)

section \<open>Properties of the conversion\<close>

text \<open>
  Claim C9. A mesh without vertex colours makes \<^verbatim>\<open>convert\<close> issue a warning and
  return \<^verbatim>\<open>None\<close>, with the converter untouched and nothing exported, whenever the
  output path passes validation (lemma \<open>convert_without_colors\<close> below). With an output
  path that has another suffix than \<^verbatim>\<open>.glb\<close>, the validation that runs first raises
  \<^verbatim>\<open>TypeError\<close>, so the call raises before the mesh is even loaded.
\<close>

theorem convert_raises_before_color_check:
  "colors_of plain_mesh = None
   \<and> load plain_env ''mesh.obj'' = Inr plain_mesh
   \<and> convert plain_env ''mesh.obj'' (Some ''out.obj'') self w = (Inl TypeError, self, w)"
  by (simp add: convert_def path_eval_defs plain_env_def plain_mesh_def colors_of_def)

lemma convert_without_colors:
  assumes "validate_output_path out w = Inr (p, w1)"
    and "load E inp = Inr m" and "colors_of m = None"
  shows "convert E inp out self w =
           (Inr None, self,
            w\<lparr> warnings := warnings w @ [''Input mesh must be an obj file with vertex colors.''] \<rparr>)"
  using assms validate_success_keeps_world[OF assms(1)]
  by (simp add: convert_def warn_def)

lemma convert_without_colors_demo:
  "convert plain_env ''mesh.obj'' None demo_converter empty_world =
     (Inr None, demo_converter,
      empty_world\<lparr> warnings := [''Input mesh must be an obj file with vertex colors.''] \<rparr>)"
  using convert_without_colors[OF validate_None_default, of plain_env "''mesh.obj''" plain_mesh demo_converter empty_world]
  by (simp add: plain_env_def plain_mesh_def colors_of_def empty_world_def)



section \<open>Properties of the gap filling\<close>

lemma inpaint_texture_buffer:
  "texture_buffer (inpaint_texture E self)
     = rev (map (map add_alpha) (inpainted E (texture_buffer self)))"
  by (simp add: inpaint_texture_def inpainted_def Let_def)

lemma alpha_add_alpha: "alpha (add_alpha px) = 255"
  by (cases px) simp

lemma inpaint_texture_all_opaque:
  "\<forall>row \<in> set (texture_buffer (inpaint_texture E self)). \<forall>t \<in> set row. alpha t = 255"
  by (auto simp: inpaint_texture_buffer alpha_add_alpha)

lemma inpaint_texture_flipped:
  assumes "length (inpainted E (texture_buffer self)) = length (texture_buffer self)"
    and "y < length (texture_buffer self)"
  shows "texture_buffer (inpaint_texture E self) ! (length (texture_buffer self) - 1 - y)
           = map add_alpha (inpainted E (texture_buffer self) ! y)"
proof -
  let ?n = "length (texture_buffer self)"
  have "?n - 1 - y < ?n" using assms(2) by simp
  moreover have "?n - Suc (?n - 1 - y) = y" using assms(2) by simp
  ultimately show ?thesis
    using assms by (simp add: inpaint_texture_buffer rev_nth)
qed

lemma inpaint_texture_covered:
  assumes "same_shape E (texture_buffer self)" and "keeps_covered E (texture_buffer self)"
    and "y < length (texture_buffer self)" and "x < length (texture_buffer self ! y)"
    and "alpha (texture_buffer self ! y ! x) \<noteq> 0"
  shows "texture_buffer (inpaint_texture E self) ! (length (texture_buffer self) - 1 - y) ! x
           = add_alpha (drop_alpha (texture_buffer self ! y ! x))"
proof -
  have len: "length (inpainted E (texture_buffer self)) = length (texture_buffer self)"
    and row: "length (inpainted E (texture_buffer self) ! y) = length (texture_buffer self ! y)"
    using assms(1,3) by (simp_all add: same_shape_def)
  have px: "inpainted E (texture_buffer self) ! y ! x = drop_alpha (texture_buffer self ! y ! x)"
    using assms(2-5) by (simp add: keeps_covered_def)
  show ?thesis
    unfolding inpaint_texture_flipped[OF len assms(3)]
    using row assms(4) px by simp
qed

text \<open>
  Claim C8. After \<open>inpaint_texture\<close>, every texel of the buffer has alpha 255, so none has
  coverage zero, whatever the inpainting returned. The rows are reversed: when the
  inpainted image has as many rows as the buffer, row \<open>y\<close> of the inpainted image is row
  \<open>n - 1 - y\<close> of the new buffer (\<open>n\<close> the number of rows); and when the inpainting keeps
  the shape and the pixels outside the mask, a texel that rasterisation covered at
  \<open>(y, x)\<close> is found, with its three colour channels and alpha 255, at \<open>(n - 1 - y, x)\<close>.
\<close>

theorem inpaint_texture_opaque_and_flipped:
  "(\<forall>row \<in> set (texture_buffer (inpaint_texture E self)).
      \<forall>t \<in> set row. alpha t = 255 \<and> alpha t \<noteq> 0)
   \<and> (length (inpainted E (texture_buffer self)) = length (texture_buffer self) \<longrightarrow>
        length (texture_buffer (inpaint_texture E self)) = length (texture_buffer self)
        \<and> (\<forall>y < length (texture_buffer self).
             texture_buffer (inpaint_texture E self) ! (length (texture_buffer self) - 1 - y)
               = map add_alpha (inpainted E (texture_buffer self) ! y)))
   \<and> (same_shape E (texture_buffer self) \<and> keeps_covered E (texture_buffer self) \<longrightarrow>
        (\<forall>y < length (texture_buffer self). \<forall>x < length (texture_buffer self ! y).
           alpha (texture_buffer self ! y ! x) \<noteq> 0 \<longrightarrow>
           texture_buffer (inpaint_texture E self) ! (length (texture_buffer self) - 1 - y) ! x
             = add_alpha (drop_alpha (texture_buffer self ! y ! x))))"
proof -
  have a: "\<forall>row \<in> set (texture_buffer (inpaint_texture E self)).
      \<forall>t \<in> set row. alpha t = 255 \<and> alpha t \<noteq> 0"
    using inpaint_texture_all_opaque[of E self] by simp
  have b: "length (inpainted E (texture_buffer self)) = length (texture_buffer self) \<longrightarrow>
        length (texture_buffer (inpaint_texture E self)) = length (texture_buffer self)
        \<and> (\<forall>y < length (texture_buffer self).
             texture_buffer (inpaint_texture E self) ! (length (texture_buffer self) - 1 - y)
               = map add_alpha (inpainted E (texture_buffer self) ! y))"
    using inpaint_texture_flipped[of E self] by (simp add: inpaint_texture_buffer)
  have c: "same_shape E (texture_buffer self) \<and> keeps_covered E (texture_buffer self) \<longrightarrow>
        (\<forall>y < length (texture_buffer self). \<forall>x < length (texture_buffer self ! y).
           alpha (texture_buffer self ! y ! x) \<noteq> 0 \<longrightarrow>
           texture_buffer (inpaint_texture E self) ! (length (texture_buffer self) - 1 - y) ! x
             = add_alpha (drop_alpha (texture_buffer self ! y ! x)))"
    using inpaint_texture_covered[of E self] by blast
  show ?thesis by (rule conjI a b c)+
qed

lemma raster_demo_inpainted:
  "inpainted demo_env (texture_buffer raster_demo)
     = [[(0, 127, 127), (128, 128, 128)], [(128, 128, 128), (9, 8, 7)]]"
  by (simp add: inpainted_def demo_env_def demo_inpaint_def raster_demo_def hole_mask_def)

lemma raster_demo_shape:
  "same_shape demo_env (texture_buffer raster_demo)"
  unfolding same_shape_def raster_demo_inpainted
  by (simp add: raster_demo_def less_Suc_eq numeral_2_eq_2)

lemma raster_demo_keeps:
  "keeps_covered demo_env (texture_buffer raster_demo)"
  unfolding keeps_covered_def raster_demo_inpainted
  by (auto simp: raster_demo_def less_Suc_eq numeral_2_eq_2)

theorem inpaint_texture_opaque_and_flipped_witness:
  "texture_buffer raster_demo
        = [[RGBA 0 127 127 255, RGBA 0 0 0 0], [RGBA 0 0 0 0, RGBA 9 8 7 1]]
   \<and> texture_buffer (inpaint_texture demo_env raster_demo)
        = [[RGBA 128 128 128 255, RGBA 9 8 7 255], [RGBA 0 127 127 255, RGBA 128 128 128 255]]
   \<and> texture_buffer (inpaint_texture demo_env raster_demo) ! (2 - 1 - 0) ! 0
        = RGBA 0 127 127 255
   \<and> list_all (list_all (\<lambda>t. alpha t = 255 \<and> alpha t \<noteq> 0))
        (texture_buffer (inpaint_texture demo_env raster_demo))"
proof -
  note inst = inpaint_texture_opaque_and_flipped[of demo_env raster_demo]
  have l: "length (inpainted demo_env (texture_buffer raster_demo))
             = length (texture_buffer raster_demo)"
    using raster_demo_shape by (simp add: same_shape_def)
  have n: "length (texture_buffer raster_demo) = 2" by (simp add: raster_demo_def)
  from inst[THEN conjunct2, THEN conjunct1, rule_format, OF l]
  have len: "length (texture_buffer (inpaint_texture demo_env raster_demo)) = 2"
    and rows: "\<And>y. y < 2 \<Longrightarrow>
      texture_buffer (inpaint_texture demo_env raster_demo) ! (2 - 1 - y)
        = map add_alpha (inpainted demo_env (texture_buffer raster_demo) ! y)"
    unfolding n by simp_all
  have r0: "texture_buffer (inpaint_texture demo_env raster_demo) ! 1
              = [RGBA 0 127 127 255, RGBA 128 128 128 255]"
    using rows[of 0] by (simp add: raster_demo_inpainted)
  have r1: "texture_buffer (inpaint_texture demo_env raster_demo) ! 0
              = [RGBA 128 128 128 255, RGBA 9 8 7 255]"
    using rows[of 1] by (simp add: raster_demo_inpainted)
  have whole: "texture_buffer (inpaint_texture demo_env raster_demo)
          = [[RGBA 128 128 128 255, RGBA 9 8 7 255], [RGBA 0 127 127 255, RGBA 128 128 128 255]]"
    using len r0 r1 by (auto simp: list_eq_iff_nth_eq less_Suc_eq numeral_2_eq_2)
  have "texture_buffer (inpaint_texture demo_env raster_demo)
          ! (length (texture_buffer raster_demo) - 1 - 0) ! 0
        = add_alpha (drop_alpha (texture_buffer raster_demo ! 0 ! 0))"
    using inst[THEN conjunct2, THEN conjunct2, rule_format, of 0 0]
      raster_demo_shape raster_demo_keeps
    by (simp add: raster_demo_def)
  then have covered: "texture_buffer (inpaint_texture demo_env raster_demo) ! (2 - 1 - 0) ! 0
        = RGBA 0 127 127 255"
    unfolding n by (simp add: raster_demo_def)
  have opaque: "list_all (list_all (\<lambda>t. alpha t = 255 \<and> alpha t \<noteq> 0))
        (texture_buffer (inpaint_texture demo_env raster_demo))"
    using inst[THEN conjunct1] unfolding list_all_iff by blast
  have "texture_buffer raster_demo
        = [[RGBA 0 127 127 255, RGBA 0 0 0 0], [RGBA 0 0 0 0, RGBA 9 8 7 1]]"
    by (simp add: raster_demo_def)
  then show ?thesis using whole covered opaque by blast
qed

section \<open>Properties of the buffer across calls\<close>

lemma filter_keeps_buffer:
  "texture_buffer (filter_and_resize_texture E self) = texture_buffer self"
  by (simp add: filter_and_resize_texture_def)

lemma init_zero:
  assumes "Converter_init ts uf ms br = Inr self"
  shows "buffer_size self = ts * uf \<and> texture_buffer self = zeros (nat (ts * uf))"
  using assms by (auto simp: Converter_init_def Let_def split: if_splits)

lemma zeros_shape:
  "length (zeros n) = n
   \<and> (\<forall>row \<in> set (zeros n). length row = n \<and> (\<forall>t \<in> set row. t = RGBA 0 0 0 0))"
  by (auto simp: zeros_def)

lemma zeros_2: "zeros 2 = [[RGBA 0 0 0 0, RGBA 0 0 0 0], [RGBA 0 0 0 0, RGBA 0 0 0 0]]"
  by (simp add: zeros_def numeral_2_eq_2)

lemma demo_init: "Converter_init 2 1 3 1 = Inr demo_converter"
  by (simp add: Converter_init_def demo_converter_def zeros_2)

text \<open>
  \<open>convert\<close> contains no allocation and no reset of the buffer: a call that returns an
  output path has rasterised the faces onto the buffer it found in the object, and has
  stored the inpainted, flipped result back into the object.
\<close>

lemma convert_rasterises_onto_current_buffer:
  assumes "convert E inp out c w = (Inr (Some p), c', w')"
  shows "\<exists>m cols vertices' cols'.
           load E inp = Inr m \<and> colors_of m = Some cols
           \<and> take_indices (vertices m) (fst (parametrize E (vertices m) (faces m))) = Inr vertices'
           \<and> take_indices cols (fst (parametrize E (vertices m) (faces m))) = Inr cols'
           \<and> fst (rasterize_faces (buffer_size c) (snd (snd (parametrize E (vertices m) (faces m))))
                  cols' (fst (snd (parametrize E (vertices m) (faces m)))) (texture_buffer c)) = None
           \<and> texture_buffer c' =
               texture_buffer (inpaint_texture E (c\<lparr> texture_buffer :=
                 snd (rasterize_faces (buffer_size c) (snd (snd (parametrize E (vertices m) (faces m))))
                        cols' (fst (snd (parametrize E (vertices m) (faces m)))) (texture_buffer c)) \<rparr>))"
  using assms
  unfolding convert_def
  by (auto simp: Let_def filter_keeps_buffer warn_def split: sum.splits option.splits prod.splits)

lemma convert_success_all_opaque:
  assumes "convert E inp out c w = (Inr (Some p), c', w')"
  shows "\<forall>row \<in> set (texture_buffer c'). \<forall>t \<in> set row. alpha t = 255"
proof -
  from convert_rasterises_onto_current_buffer[OF assms] obtain buf where
    "texture_buffer c' = texture_buffer (inpaint_texture E (c\<lparr> texture_buffer := buf \<rparr>))"
    by blast
  then show ?thesis
    using inpaint_texture_all_opaque[of E "c\<lparr> texture_buffer := buf \<rparr>"] by simp
qed

lemma demo_convert:
  "convert demo_env ''mesh.obj'' None demo_converter empty_world =
     (Inr (Some ''output.glb''), after_first_call, world_after_first_call)"
  by code_simp

lemma demo_convert_again:
  "texture_buffer
     (fst (snd (convert demo_env ''mesh.obj'' None after_first_call world_after_first_call)))
   = [[RGBA 0 127 127 255, RGBA 128 128 128 255],
      [RGBA 0 127 127 255, RGBA 128 128 128 255]]"
  by code_simp

text \<open>
  Claim C2. The constructor allocates the buffer zero-filled with side
  \<open>texture_size * upscale_factor\<close>, and \<open>convert\<close> never allocates or clears it, so only
  the first call on an object starts from a zero-filled buffer. With a converter of
  buffer side 2, the first conversion of the one-triangle mesh leaves the inpainted,
  flipped buffer in the object; a second conversion of the same mesh with the same object
  starts from that buffer, which is not zero-filled, finds no texel of alpha zero to
  inpaint, and ends with the texel \<open>(0, 127, 127, 255)\<close> that the first call rasterised
  still in row 0, where the same conversion with a new object has the inpainted grey.
  The two calls have the same input and give different textures.
\<close>

theorem convert_second_call_reuses_buffer:
  "Converter_init 2 1 3 1 = Inr demo_converter
   \<and> texture_buffer demo_converter = zeros 2
   \<and> convert demo_env ''mesh.obj'' None demo_converter empty_world
       = (Inr (Some ''output.glb''), after_first_call, world_after_first_call)
   \<and> texture_buffer after_first_call
       = [[RGBA 128 128 128 255, RGBA 128 128 128 255],
          [RGBA 0 127 127 255, RGBA 128 128 128 255]]
   \<and> texture_buffer after_first_call \<noteq> zeros 2
   \<and> hole_mask (texture_buffer after_first_call) = [[0, 0], [0, 0]]
   \<and> texture_buffer
        (fst (snd (convert demo_env ''mesh.obj'' None after_first_call world_after_first_call)))
       = [[RGBA 0 127 127 255, RGBA 128 128 128 255],
          [RGBA 0 127 127 255, RGBA 128 128 128 255]]
   \<and> texture_buffer
        (fst (snd (convert demo_env ''mesh.obj'' None after_first_call world_after_first_call)))
       \<noteq> texture_buffer
            (fst (snd (convert demo_env ''mesh.obj'' None demo_converter empty_world)))"
  unfolding demo_convert_again demo_convert zeros_2
  by (simp add: demo_init demo_converter_def after_first_call_def hole_mask_def)

section \<open>Properties of the rasterisation\<close>






lemma clip_idem: "clip (clip v 0 255) 0 255 = clip v 0 255"
  by (simp add: clip_def)


















end
